theory Spec2Isabelle
  imports Complex_Main
begin

section \<open>Data model of the Dashboard component\<close>

text \<open>
  The component of \<^verbatim>\<open>src/pages/Dashboard.tsx\<close> and its two sibling variants
  (\<^verbatim>\<open>unnamed/part_000\<close>, \<^verbatim>\<open>unnamed/part_001\<close>) keep their state in React
  \<^verbatim>\<open>useState\<close> cells. The embedding passes that state explicitly as a record and
  returns it updated. A JavaScript \<^verbatim>\<open>number\<close> is modelled as a \<^typ>\<open>real\<close>: arithmetic
  is exact, IEEE-754 rounding is not part of the model. The only operation of the code
  that could leave the finite numbers from finite operands is the division of the
  normalisation step, whose divisor is shown to be positive below.
\<close>

record Prediction =
  className :: string
  probability :: real

text \<open>
  \<^verbatim>\<open>metadata\<close> has type \<^verbatim>\<open>any\<close>; the code reads \<^verbatim>\<open>metadata.modelName\<close> and
  \<^verbatim>\<open>metadata.labels\<close> only. A field that is absent (\<^verbatim>\<open>undefined\<close>) is \<open>None\<close>;
  a \<^verbatim>\<open>labels\<close> field that is present is an array of strings, as the metadata
  resource is specified. A JSON value that is not an object and not \<^verbatim>\<open>null\<close> has
  neither field and behaves like the record with both fields absent.
\<close>

record ModelMetadata =
  modelName :: "string option"
  labels :: "string list option"

text \<open>A thrown JavaScript value, by its message.\<close>

datatype error = Error string

fun message :: "error \<Rightarrow> string" where
  "message (Error m) = m"

text \<open>
  The classifier handle (\<^verbatim>\<open>tmImage.CustomMobileNet\<close>) is external. Only its
  \<^verbatim>\<open>predict\<close> is used: it takes the image element (here: its \<^verbatim>\<open>src\<close>) and
  resolves to a prediction list or rejects. The second argument stands for whatever
  else of the outside world the external call may depend on at call time, so that a
  classifier need not be deterministic.
\<close>

type_synonym 'w CustomMobileNet = "string \<Rightarrow> 'w \<Rightarrow> error + Prediction list"

datatype variant = Default | Destructive

record Toast =
  title :: string
  description :: string
  variant :: variant

text \<open>
  Everything the component does to the outside is appended to a trace: notifications,
  console output, timer waits, calls of the external \<^verbatim>\<open>predict\<close> and calls of the
  synthetic generator.
\<close>

datatype effect =
    ToastShown Toast
  | ConsoleError string error
  | Timeout nat
  | PredictCalled string
  | MockGenerated

text \<open>
  The state cells shared by all variants. \<open>image_url\<close> is the cell \<^verbatim>\<open>image\<close>
  (an object URL or \<^verbatim>\<open>null\<close>); \<open>imageRef\<close> is \<^verbatim>\<open>imageRef.current\<close>, the
  rendered image element, represented by its \<^verbatim>\<open>src\<close>, or \<^verbatim>\<open>null\<close>. A handler
  defined below is the body of the source function applied to the cells its closure
  sees; which cells the memoised \<^verbatim>\<open>analyzeImage\<close> of \<^verbatim>\<open>Dashboard.tsx\<close> sees at a click
  is modelled separately (\<open>click_analyze\<close>).
\<close>

record 'w Component =
  image_url :: "string option"
  imageRef :: "string option"
  predictions :: "Prediction list"
  isAnalyzing :: bool
  metadata :: "ModelMetadata option"
  model :: "'w CustomMobileNet option"
  trace :: "effect list"

text \<open>\<^verbatim>\<open>src/pages/Dashboard.tsx\<close> adds the cell \<^verbatim>\<open>modelLoadError\<close>.\<close>

record 'w Dashboard = "'w Component" +
  modelLoadError :: "string option"

text \<open>\<^verbatim>\<open>unnamed/part_000\<close> adds the cells \<^verbatim>\<open>modelError\<close> and \<^verbatim>\<open>progressValue\<close>.\<close>

record 'w Dashboard_part_000 = "'w Component" +
  modelError :: "string option"
  progressValue :: nat

text \<open>JavaScript truthiness of a \<^verbatim>\<open>string | null\<close>: \<^verbatim>\<open>null\<close> and the empty string are falsy.\<close>

definition truthy :: "string option \<Rightarrow> bool" where
  "truthy v = (case v of None \<Rightarrow> False | Some str \<Rightarrow> str \<noteq> [])"

definition toast :: "Toast \<Rightarrow> ('w, 'z) Component_scheme \<Rightarrow> ('w, 'z) Component_scheme" where
  "toast t s = s\<lparr>trace := trace s @ [ToastShown t]\<rparr>"

definition console_error :: "string \<Rightarrow> error \<Rightarrow> ('w, 'z) Component_scheme \<Rightarrow> ('w, 'z) Component_scheme" where
  "console_error label e s = s\<lparr>trace := trace s @ [ConsoleError label e]\<rparr>"

definition setTimeout :: "nat \<Rightarrow> ('w, 'z) Component_scheme \<Rightarrow> ('w, 'z) Component_scheme" where
  "setTimeout ms s = s\<lparr>trace := trace s @ [Timeout ms]\<rparr>"

text \<open>The initial values of the \<^verbatim>\<open>useState\<close> cells of \<^verbatim>\<open>Dashboard.tsx\<close>.\<close>

definition initialState :: "'w Dashboard" where
  "initialState =
     \<lparr>image_url = None, imageRef = None, predictions = [], isAnalyzing = False,
      metadata = None, model = None, trace = [], modelLoadError = None\<rparr>"

section \<open>Top prediction\<close>

text \<open>
  \<^verbatim>\<open>predictions.reduce((prev, current) => ...)\<close> without an initial value starts from the
  first element and visits the others from left to right; the empty array gives
  \<^verbatim>\<open>null\<close>. The same expression stands in all three variants.
\<close>

definition topPrediction :: "Prediction list \<Rightarrow> Prediction option" where
  "topPrediction ps =
     (case ps of
        [] \<Rightarrow> None
      | first # rest \<Rightarrow>
          Some (foldl (\<lambda>prev current.
                  if probability prev > probability current then prev else current)
                first rest))"

section \<open>Synthetic predictions (\<^verbatim>\<open>generateMockPredictions\<close>)\<close>

text \<open>
  \<^verbatim>\<open>Math.random()\<close> is an input: \<open>rnd k\<close> is the value of the \<open>k\<close>-th call made during
  one run of the generator. Call 0 picks the dominant index; the callback of
  \<^verbatim>\<open>labels.forEach\<close> makes exactly one call per label, so label \<open>index\<close> reads call
  \<open>index + 1\<close>.
\<close>

definition dominantIndex :: "(nat \<Rightarrow> real) \<Rightarrow> string list \<Rightarrow> nat" where
  "dominantIndex rnd ls = nat \<lfloor>rnd 0 * real (length ls)\<rfloor>"

fun forEach_labels ::
  "(nat \<Rightarrow> real) \<Rightarrow> nat \<Rightarrow> nat \<Rightarrow> string list \<Rightarrow> Prediction list \<Rightarrow> Prediction list" where
  "forEach_labels rnd dominant index [] mockPredictions = mockPredictions"
| "forEach_labels rnd dominant index (label # rest) mockPredictions =
     forEach_labels rnd dominant (index + 1) rest
       (mockPredictions @
          [\<lparr>className = label,
            probability = (if index = dominant then rnd (index + 1) * 0.3 + 0.4
                           else rnd (index + 1) * 0.2)\<rparr>])"

text \<open>The array \<^verbatim>\<open>mockPredictions\<close> after the loop, and \<^verbatim>\<open>totalProb\<close>, its \<^verbatim>\<open>reduce\<close> from 0.\<close>

definition mockPredictions :: "(nat \<Rightarrow> real) \<Rightarrow> string list \<Rightarrow> Prediction list" where
  "mockPredictions rnd ls = forEach_labels rnd (dominantIndex rnd ls) 0 ls []"

definition totalProb :: "(nat \<Rightarrow> real) \<Rightarrow> string list \<Rightarrow> real" where
  "totalProb rnd ls = foldl (\<lambda>sum p. sum + probability p) 0 (mockPredictions rnd ls)"

definition generateMockPredictions :: "(nat \<Rightarrow> real) \<Rightarrow> ModelMetadata option \<Rightarrow> Prediction list" where
  "generateMockPredictions rnd md =
     (case md of
        None \<Rightarrow> []
      | Some m \<Rightarrow>
          (case labels m of
             None \<Rightarrow> []
           | Some ls \<Rightarrow>
               map (\<lambda>p. \<lparr>className = className p,
                          probability = probability p / totalProb rnd ls\<rparr>)
                 (mockPredictions rnd ls)))"

section \<open>Model acquisition (\<^verbatim>\<open>loadModel\<close> of \<^verbatim>\<open>Dashboard.tsx\<close>)\<close>

text \<open>
  What \<^verbatim>\<open>fetch("/assets/metadata.json")\<close> followed by \<^verbatim>\<open>.json()\<close> can do: the fetch
  rejects (network error), or it resolves to a response with a status (\<open>True\<close> when
  \<^verbatim>\<open>response.ok\<close>) whose body either fails to parse or parses to a JSON value.
  \<open>Json None\<close> is the JSON value \<^verbatim>\<open>null\<close>.
\<close>

datatype body = Malformed error | Json "ModelMetadata option"

datatype fetched = Rejected error | Response bool body

text \<open>
  The outside world of one run of \<^verbatim>\<open>loadModel\<close>: the two metadata requests, the global
  \<^verbatim>\<open>window.tmImage\<close> (\<open>None\<close> when it is not defined, otherwise the outcome of its
  \<^verbatim>\<open>load\<close>) and the outcome of \<^verbatim>\<open>load\<close> of the npm package.
\<close>

record 'w LoadEnv =
  fetch_first :: fetched
  window_tmImage :: "(error + 'w CustomMobileNet) option"
  tmImage_load :: "error + 'w CustomMobileNet"
  fetch_retry :: fetched

text \<open>\<^verbatim>\<open>metadataJson.modelName || "soil samples"\<close>.\<close>

definition modelName_or_default :: "ModelMetadata \<Rightarrow> string" where
  "modelName_or_default m =
     (case modelName m of
        None \<Rightarrow> ''soil samples''
      | Some name \<Rightarrow> if name = [] then ''soil samples'' else name)"

text \<open>
  The two branches of \<^verbatim>\<open>if (window.tmImage)\<close> have the same body after the call of
  \<^verbatim>\<open>load\<close>: \<^verbatim>\<open>setModel\<close>, then the toast. Building the toast reads
  \<^verbatim>\<open>metadataJson.modelName\<close>, which throws a \<^verbatim>\<open>TypeError\<close> when the JSON value is
  \<^verbatim>\<open>null\<close>. A block returns the thrown value, if any, with the state reached.
\<close>

definition loadModel_loaded ::
  "ModelMetadata option \<Rightarrow> error + 'w CustomMobileNet \<Rightarrow> 'w Dashboard \<Rightarrow> error option \<times> 'w Dashboard" where
  "loadModel_loaded metadataJson loaded s =
     (case loaded of
        Inl e \<Rightarrow> (Some e, s)
      | Inr loadedModel \<Rightarrow>
          (let s1 = s\<lparr>model := Some loadedModel\<rparr> in
           case metadataJson of
             None \<Rightarrow> (Some (Error ''TypeError''), s1)
           | Some m \<Rightarrow>
               (None, toast \<lparr>title = ''Model loaded'',
                             description = ''Ready to analyze '' @ modelName_or_default m,
                             variant = Default\<rparr> s1)))"

definition loadModel_try :: "'w LoadEnv \<Rightarrow> 'w Dashboard \<Rightarrow> error option \<times> 'w Dashboard" where
  "loadModel_try env s =
     (case fetch_first env of
        Rejected e \<Rightarrow> (Some e, s)
      | Response ok b \<Rightarrow>
          (case b of
             Malformed e \<Rightarrow> (Some e, s)
           | Json metadataJson \<Rightarrow>
               (let s1 = s\<lparr>metadata := metadataJson\<rparr>;
                    r = (case window_tmImage env of
                           Some loaded \<Rightarrow> loadModel_loaded metadataJson loaded s1
                         | None \<Rightarrow> loadModel_loaded metadataJson (tmImage_load env) s1)
                in case r of
                     (Some e, s2) \<Rightarrow> (Some e, s2)
                   | (None, s2) \<Rightarrow> (None, s2\<lparr>modelLoadError := None\<rparr>))))"

text \<open>
  The \<^verbatim>\<open>catch\<close> block in its two parts: what runs at once (the error is logged and
  recorded, the toast shown), and what runs when the second metadata request, awaited
  in between, has settled.
\<close>

definition loadModel_catch_begin :: "error \<Rightarrow> 'w Dashboard \<Rightarrow> 'w Dashboard" where
  "loadModel_catch_begin e s =
     (let s1 = console_error ''Error loading model:'' e s;
          s2 = s1\<lparr>modelLoadError :=
                    Some ''Failed to load the soil classification model. Using fallback mode.''\<rparr>
      in toast \<lparr>title = ''Model loading failed'',
                 description = ''Using fallback classification mode'',
                 variant = Destructive\<rparr> s2)"

definition loadModel_catch_retry :: "'w LoadEnv \<Rightarrow> 'w Dashboard \<Rightarrow> 'w Dashboard" where
  "loadModel_catch_retry env s3 =
     (case fetch_retry env of
        Rejected metadataError \<Rightarrow> console_error ''Error loading metadata:'' metadataError s3
      | Response ok b \<Rightarrow>
          (case b of
             Malformed metadataError \<Rightarrow>
               console_error ''Error loading metadata:'' metadataError s3
           | Json metadataJson \<Rightarrow> s3\<lparr>metadata := metadataJson\<rparr>))"

definition loadModel_catch :: "'w LoadEnv \<Rightarrow> error \<Rightarrow> 'w Dashboard \<Rightarrow> 'w Dashboard" where
  "loadModel_catch env e s = loadModel_catch_retry env (loadModel_catch_begin e s)"

definition loadModel :: "'w LoadEnv \<Rightarrow> 'w Dashboard \<Rightarrow> 'w Dashboard" where
  "loadModel env s =
     (case loadModel_try env s of
        (None, s1) \<Rightarrow> s1
      | (Some e, s1) \<Rightarrow> loadModel_catch env e s1)"

text \<open>
  The acquisition state of the specification, read off the two cells the code branches
  on (\<^verbatim>\<open>model && !modelLoadError\<close> in \<^verbatim>\<open>analyzeImage\<close>): a recorded load error is
  the degraded state, otherwise a held classifier is the ready state, otherwise the
  load is still under way.
\<close>

datatype 'w AcquisitionState = Loading | Ready "'w CustomMobileNet" | Degraded string

definition acquisitionState :: "'w Dashboard \<Rightarrow> 'w AcquisitionState" where
  "acquisitionState s =
     (let held = (case model s of Some h \<Rightarrow> Ready h | None \<Rightarrow> Loading)
      in case modelLoadError s of
           None \<Rightarrow> held
         | Some reason \<Rightarrow> if reason = [] then held else Degraded reason)"

section \<open>Upload and analysis (\<^verbatim>\<open>Dashboard.tsx\<close>)\<close>

text \<open>
  \<^verbatim>\<open>handleImageUpload\<close>: the chosen file is given by the object URL that
  \<^verbatim>\<open>URL.createObjectURL\<close> returns for it, \<open>None\<close> when no file was chosen. The JSX
  renders the image element, with \<^verbatim>\<open>ref={imageRef}\<close> and \<^verbatim>\<open>src={image}\<close>, exactly
  when \<^verbatim>\<open>image\<close> is truthy, which sets \<^verbatim>\<open>imageRef.current\<close>. The handler is the
  same in all three variants.
\<close>

definition handleImageUpload ::
  "string option \<Rightarrow> ('w, 'z) Component_scheme \<Rightarrow> ('w, 'z) Component_scheme" where
  "handleImageUpload file s =
     (case file of
        None \<Rightarrow> s
      | Some imageUrl \<Rightarrow>
          toast \<lparr>title = ''Image uploaded'',
                 description = ''Click 'Analyze Soil' to process the image'',
                 variant = Default\<rparr>
            (s\<lparr>predictions := [], image_url := Some imageUrl,
               imageRef := (if truthy (Some imageUrl) then Some imageUrl else None)\<rparr>))"

definition analysis_complete :: Toast where
  "analysis_complete =
     \<lparr>title = ''Analysis complete'',
      description = ''Soil classification results are ready'',
      variant = Default\<rparr>"

text \<open>
  The \<^verbatim>\<open>try\<close> block of \<^verbatim>\<open>analyzeImage\<close>. \<open>w\<close> is the outside world at the time of the
  \<^verbatim>\<open>predict\<close> call, \<open>rnd\<close> the values of \<^verbatim>\<open>Math.random()\<close>, \<open>img\<close> the image
  element. The block returns the thrown value, if any, with the state reached.
\<close>

definition analyzeImage_try ::
  "'w \<Rightarrow> (nat \<Rightarrow> real) \<Rightarrow> string \<Rightarrow> 'w Dashboard \<Rightarrow> error option \<times> 'w Dashboard" where
  "analyzeImage_try w rnd img s =
     (let s1 = setTimeout 100 s;
          fallback =
            (let prediction = generateMockPredictions rnd (metadata s1);
                 s2 = setTimeout 800 (s1\<lparr>trace := trace s1 @ [MockGenerated]\<rparr>)
             in (None, toast analysis_complete (s2\<lparr>predictions := prediction\<rparr>)))
      in case model s1 of
           None \<Rightarrow> fallback
         | Some m \<Rightarrow>
             if \<not> truthy (modelLoadError s1) then
               (let s2 = s1\<lparr>trace := trace s1 @ [PredictCalled img]\<rparr> in
                case m img w of
                  Inl e \<Rightarrow> (Some e, s2)
                | Inr prediction \<Rightarrow>
                    (None, toast analysis_complete (s2\<lparr>predictions := prediction\<rparr>)))
             else fallback)"

text \<open>The \<^verbatim>\<open>catch\<close> block: the synthetic generator runs and its result is published.\<close>

definition analyzeImage_catch :: "(nat \<Rightarrow> real) \<Rightarrow> error \<Rightarrow> 'w Dashboard \<Rightarrow> 'w Dashboard" where
  "analyzeImage_catch rnd e s =
     (let s1 = console_error ''Error analyzing image:'' e s;
          mockPrediction = generateMockPredictions rnd (metadata s1);
          s2 = s1\<lparr>trace := trace s1 @ [MockGenerated]\<rparr>
      in toast analysis_complete (s2\<lparr>predictions := mockPrediction\<rparr>))"

definition analyzeImage :: "'w \<Rightarrow> (nat \<Rightarrow> real) \<Rightarrow> 'w Dashboard \<Rightarrow> 'w Dashboard" where
  "analyzeImage w rnd s =
     (case (truthy (image_url s), imageRef s) of
        (True, Some img) \<Rightarrow>
          (let s1 = s\<lparr>isAnalyzing := True\<rparr>;
               s2 = (case analyzeImage_try w rnd img s1 of
                       (None, s') \<Rightarrow> s'
                     | (Some e, s') \<Rightarrow> analyzeImage_catch rnd e s')
           in s2\<lparr>isAnalyzing := False\<rparr>)
      | _ \<Rightarrow>
          toast \<lparr>title = ''Cannot analyze'',
                 description = ''Please upload an image first'',
                 variant = Destructive\<rparr> s)"

section \<open>The memoised handler (\<^verbatim>\<open>useCallback\<close> in \<^verbatim>\<open>Dashboard.tsx\<close>)\<close>

text \<open>
  \<^verbatim>\<open>analyzeImage\<close> is wrapped in \<^verbatim>\<open>useCallback\<close> with the dependencies
  \<^verbatim>\<open>[model, image, toast, modelLoadError]\<close>, while \<^verbatim>\<open>generateMockPredictions\<close> is a
  plain function of each render that reads \<^verbatim>\<open>metadata\<close>. At a render React keeps the
  handler of the earlier render unless a dependency has changed; the handler kept
  calls the \<^verbatim>\<open>generateMockPredictions\<close> of the render that built it, which reads the
  \<^verbatim>\<open>metadata\<close> of that render. \<^verbatim>\<open>metadata\<close> is not a dependency. \<^verbatim>\<open>toast\<close> is the
  same function at every render, so the dependencies that can change are the three
  cells.

  The rendered component is the current cells together with \<open>memo\<close>, the cells of the
  render that built the handler now in use.
\<close>

record 'w Rendered =
  cells :: "'w Dashboard"
  memo :: "'w Dashboard"

definition deps ::
  "'w Dashboard \<Rightarrow> 'w CustomMobileNet option \<times> string option \<times> string option" where
  "deps s = (model s, image_url s, modelLoadError s)"

text \<open>The render that follows a change of the cells to \<open>c\<close>.\<close>

definition rerender :: "'w Dashboard \<Rightarrow> 'w Rendered \<Rightarrow> 'w Rendered" where
  "rerender c v = \<lparr>cells = c, memo = (if deps c = deps (memo v) then memo v else c)\<rparr>"

text \<open>The first render.\<close>

definition mount :: "'w Rendered" where
  "mount = \<lparr>cells = initialState, memo = initialState\<rparr>"

definition upload :: "string option \<Rightarrow> 'w Rendered \<Rightarrow> 'w Rendered" where
  "upload file v = rerender (handleImageUpload file (cells v)) v"

text \<open>
  A run of \<^verbatim>\<open>loadModel\<close> on the rendered component, with no user event in between.
  The cells change in batches separated by the awaited calls. A batch that changes no
  dependency leaves the handler as it is, so only two renders matter: the one that
  ends the \<^verbatim>\<open>try\<close> block, and, when the block has thrown, the one after the first part
  of the \<^verbatim>\<open>catch\<close> block followed by the one after the second metadata request.
\<close>

definition loadModel_rendered :: "'w LoadEnv \<Rightarrow> 'w Rendered \<Rightarrow> 'w Rendered" where
  "loadModel_rendered env v =
     (case loadModel_try env (cells v) of
        (None, s1) \<Rightarrow> rerender s1 v
      | (Some e, s1) \<Rightarrow>
          (let v1 = rerender (loadModel_catch_begin e s1) v
           in rerender (loadModel_catch_retry env (cells v1)) v1))"

text \<open>
  A click on "Analyze Soil" runs the handler in use. Its closure holds \<^verbatim>\<open>model\<close>,
  \<^verbatim>\<open>image\<close>, \<^verbatim>\<open>modelLoadError\<close> and, through \<^verbatim>\<open>generateMockPredictions\<close>,
  \<^verbatim>\<open>metadata\<close> of the render that built it; \<^verbatim>\<open>imageRef\<close> is a ref and the setters
  write the current cells.
\<close>

definition click_analyze :: "'w \<Rightarrow> (nat \<Rightarrow> real) \<Rightarrow> 'w Rendered \<Rightarrow> 'w Rendered" where
  "click_analyze w rnd v =
     (let seen = (cells v)\<lparr>model := model (memo v), image_url := image_url (memo v),
                            modelLoadError := modelLoadError (memo v),
                            metadata := metadata (memo v)\<rparr>;
          after = analyzeImage w rnd seen
      in rerender (after\<lparr>model := model (cells v), image_url := image_url (cells v),
                         modelLoadError := modelLoadError (cells v),
                         metadata := metadata (cells v)\<rparr>) v)"

section \<open>Analysis in the stricter variant (\<^verbatim>\<open>unnamed/part_000\<close>)\<close>

text \<open>
  This variant has no synthetic generator. It checks the image first, then the model,
  and drives \<^verbatim>\<open>progressValue\<close>. The last \<^verbatim>\<open>setTimeout\<close> of the \<^verbatim>\<open>finally\<close> block only
  schedules the reset of the progress value to 0; the state returned is the one at the
  end of the handler.
\<close>

definition analyzeImage_part_000 :: "'w \<Rightarrow> 'w Dashboard_part_000 \<Rightarrow> 'w Dashboard_part_000" where
  "analyzeImage_part_000 w s =
     (case (truthy (image_url s), imageRef s) of
        (True, Some img) \<Rightarrow>
          (case model s of
             None \<Rightarrow>
               toast \<lparr>title = ''Model not loaded'',
                      description = ''The soil classification model is not loaded yet'',
                      variant = Destructive\<rparr> s
           | Some m \<Rightarrow>
               (let s1 = s\<lparr>isAnalyzing := True, predictions := []\<rparr>;
                    s2 = setTimeout 100 (s1\<lparr>progressValue := 30\<rparr>);
                    s3 = s2\<lparr>progressValue := 50\<rparr>;
                    s4 = s3\<lparr>trace := trace s3 @ [PredictCalled img]\<rparr>;
                    s5 = (case m img w of
                            Inr prediction \<Rightarrow>
                              toast analysis_complete
                                (s4\<lparr>progressValue := 80, predictions := prediction\<rparr>)
                          | Inl e \<Rightarrow>
                              toast \<lparr>title = ''Analysis failed'',
                                     description = ''Error: '' @ message e,
                                     variant = Destructive\<rparr>
                                (console_error ''Error analyzing image:'' e s4))
                in setTimeout 500 (s5\<lparr>isAnalyzing := False, progressValue := 100\<rparr>)))
      | _ \<Rightarrow>
          toast \<lparr>title = ''Cannot analyze'',
                 description = ''Please upload an image first'',
                 variant = Destructive\<rparr> s)"

section \<open>Example sessions\<close>

text \<open>
  Concrete inputs on which the theorems below are instantiated: the metadata document
  of Scenario A, two sources of random numbers (every call of \<^verbatim>\<open>Math.random()\<close> returns
  0.5, respectively 0.25), a classifier that answers every image with the same
  distribution, one whose \<^verbatim>\<open>predict\<close> always rejects, and the outside world of a
  run of \<^verbatim>\<open>loadModel\<close> in which both metadata requests succeed with status 200,
  \<^verbatim>\<open>window.tmImage\<close> is not defined and the npm loader has the given outcome.
\<close>

definition soil_metadata :: ModelMetadata where
  "soil_metadata =
     \<lparr>modelName = Some ''Soil Classifier'', labels = Some [''Clay'', ''Sand'', ''Loam'']\<rparr>"

definition half :: "nat \<Rightarrow> real" where
  "half k = 1 / 2"

definition quarter :: "nat \<Rightarrow> real" where
  "quarter k = 1 / 4"

definition soil_classifier :: "nat CustomMobileNet" where
  "soil_classifier img w =
     Inr [\<lparr>className = ''Clay'', probability = 1 / 5\<rparr>,
          \<lparr>className = ''Sand'', probability = 7 / 10\<rparr>,
          \<lparr>className = ''Loam'', probability = 1 / 10\<rparr>]"

definition failing_classifier :: "nat CustomMobileNet" where
  "failing_classifier img w = Inl (Error ''malformed image'')"

definition session_env :: "error + nat CustomMobileNet \<Rightarrow> nat LoadEnv" where
  "session_env loaded =
     \<lparr>fetch_first = Response True (Json (Some soil_metadata)),
      window_tmImage = None,
      tmImage_load = loaded,
      fetch_retry = Response True (Json (Some soil_metadata))\<rparr>"

text \<open>
  The initial values of the \<^verbatim>\<open>useState\<close> cells of \<^verbatim>\<open>unnamed/part_000\<close>, and that
  variant's state when the user has uploaded an image while the model is still loading.
\<close>

definition initialState_part_000 :: "'w Dashboard_part_000" where
  "initialState_part_000 =
     \<lparr>image_url = None, imageRef = None, predictions = [], isAnalyzing = False,
      metadata = None, model = None, trace = [], modelError = None, progressValue = 10\<rparr>"

definition loading_part_000 :: "nat Dashboard_part_000" where
  "loading_part_000 = handleImageUpload (Some ''blob:soil'') initialState_part_000"

text \<open>
  A session in which the user uploads an image while the first metadata request is
  pending, that request rejects, and the second one, made by the \<^verbatim>\<open>catch\<close> block,
  delivers the metadata document.
\<close>

definition late_metadata_env :: "nat LoadEnv" where
  "late_metadata_env =
     \<lparr>fetch_first = Rejected (Error ''Failed to fetch''),
      window_tmImage = None,
      tmImage_load = Inl (Error ''load failed''),
      fetch_retry = Response True (Json (Some soil_metadata))\<rparr>"

definition late_metadata_session :: "nat Rendered" where
  "late_metadata_session =
     loadModel_rendered late_metadata_env (upload (Some ''blob:soil'') mount)"

text \<open>The state after the load has finished and the user has uploaded an image.\<close>

definition session :: "error + nat CustomMobileNet \<Rightarrow> nat Dashboard" where
  "session loaded =
     handleImageUpload (Some ''blob:soil'') (loadModel (session_env loaded) initialState)"

section \<open>Properties of the top prediction\<close>

lemma foldl_top_last:
  fixes a :: Prediction
  shows "\<exists>i<length (a # xs).
      foldl (\<lambda>prev current. if probability prev > probability current then prev else current) a xs
        = (a # xs) ! i
    \<and> (\<forall>j<length (a # xs). probability ((a # xs) ! j) \<le> probability ((a # xs) ! i))
    \<and> (\<forall>j<length (a # xs). i < j \<longrightarrow> probability ((a # xs) ! j) < probability ((a # xs) ! i))"
proof (induction xs rule: rev_induct)
  case Nil
  then show ?case by simp
next
  case (snoc x xs)
  let ?f = "\<lambda>prev current. if probability prev > probability current then prev else (current::Prediction)"
  let ?ys = "a # xs"
  let ?zs = "a # xs @ [x]"
  from snoc obtain i where i: "i < length ?ys" "foldl ?f a xs = ?ys ! i"
    and mx: "\<forall>j<length ?ys. probability (?ys ! j) \<le> probability (?ys ! i)"
    and lt: "\<forall>j<length ?ys. i < j \<longrightarrow> probability (?ys ! j) < probability (?ys ! i)"
    by blast
  have old: "?zs ! j = ?ys ! j" if "j < length ?ys" for j
    using that by (metis append_Cons nth_append)
  have new: "?zs ! length ?ys = x"
    by (metis append_Cons nth_append_length)
  have split: "j < length ?ys \<or> j = length ?ys" if "j < length ?zs" for j
    using that by auto
  show ?case
  proof (cases "probability (?ys ! i) > probability x")
    case True
    have top: "foldl ?f a (xs @ [x]) = ?zs ! i"
      using True i old [of i] by simp
    have "probability (?zs ! j) \<le> probability (?zs ! i)" if "j < length ?zs" for j
      using split [OF that] True mx old [of i] old [of j] new i(1) by auto
    moreover have "probability (?zs ! j) < probability (?zs ! i)" if "j < length ?zs" "i < j" for j
      using split [OF that(1)] that(2) True lt old [of i] old [of j] new i(1) by auto
    moreover have "i < length ?zs" using i(1) by simp
    ultimately show ?thesis using top by blast
  next
    case False
    have top: "foldl ?f a (xs @ [x]) = ?zs ! length ?ys"
      using False i new by simp
    have "probability (?zs ! j) \<le> probability (?zs ! length ?ys)" if "j < length ?zs" for j
      using split [OF that] False mx old [of j] new i(1) by fastforce
    moreover have "probability (?zs ! j) < probability (?zs ! length ?ys)"
      if "j < length ?zs" "length ?ys < j" for j
      using that by simp
    moreover have "length ?ys < length ?zs" by simp
    ultimately show ?thesis using top by blast
  qed
qed

text \<open>
  Claim C1, as far as it holds. For every non-empty prediction sequence the top
  prediction is an entry of the sequence whose probability is greater than or equal to
  the probability of every entry; when several entries share the maximum, it is the
  latest of them in label order (every later entry has a strictly smaller
  probability), because the comparison \<^verbatim>\<open>prev.probability > current.probability\<close>
  keeps \<^verbatim>\<open>prev\<close> only when it is strictly greater.
\<close>

theorem topPrediction_max_latest:
  "ps \<noteq> [] \<Longrightarrow>
   \<exists>i<length ps. topPrediction ps = Some (ps ! i)
     \<and> (\<forall>j<length ps. probability (ps ! j) \<le> probability (ps ! i))
     \<and> (\<forall>j<length ps. i < j \<longrightarrow> probability (ps ! j) < probability (ps ! i))"
proof (cases ps)
  case Nil
  assume "ps \<noteq> []"
  with Nil show ?thesis by simp
next
  case (Cons a xs)
  from foldl_top_last [of a xs] show ?thesis
    unfolding Cons topPrediction_def by simp
qed

theorem topPrediction_max_latest_witness:
  "[\<lparr>className = ''Sand'', probability = 2/5\<rparr>, \<lparr>className = ''Loam'', probability = 2/5\<rparr>] \<noteq> []
   \<and> (\<exists>i<length [\<lparr>className = ''Sand'', probability = 2/5\<rparr>, \<lparr>className = ''Loam'', probability = 2/5\<rparr>].
        topPrediction [\<lparr>className = ''Sand'', probability = 2/5\<rparr>, \<lparr>className = ''Loam'', probability = 2/5\<rparr>]
          = Some ([\<lparr>className = ''Sand'', probability = 2/5\<rparr>, \<lparr>className = ''Loam'', probability = 2/5\<rparr>] ! i)
        \<and> (\<forall>j<length [\<lparr>className = ''Sand'', probability = 2/5\<rparr>, \<lparr>className = ''Loam'', probability = 2/5\<rparr>].
              probability ([\<lparr>className = ''Sand'', probability = 2/5\<rparr>, \<lparr>className = ''Loam'', probability = 2/5\<rparr>] ! j)
                \<le> probability ([\<lparr>className = ''Sand'', probability = 2/5\<rparr>, \<lparr>className = ''Loam'', probability = 2/5\<rparr>] ! i))
        \<and> (\<forall>j<length [\<lparr>className = ''Sand'', probability = 2/5\<rparr>, \<lparr>className = ''Loam'', probability = 2/5\<rparr>].
              i < j \<longrightarrow>
              probability ([\<lparr>className = ''Sand'', probability = 2/5\<rparr>, \<lparr>className = ''Loam'', probability = 2/5\<rparr>] ! j)
                < probability ([\<lparr>className = ''Sand'', probability = 2/5\<rparr>, \<lparr>className = ''Loam'', probability = 2/5\<rparr>] ! i)))"
proof -
  have ne: "[\<lparr>className = ''Sand'', probability = 2/5\<rparr>, \<lparr>className = ''Loam'', probability = 2/5\<rparr>] \<noteq> []"
    by simp
  show ?thesis
    by (rule conjI [OF ne topPrediction_max_latest [OF ne]])
qed

text \<open>
  Claim C1 as stated fails on ties: of two entries with the same probability the
  second one is selected, not the earliest.
\<close>

theorem topPrediction_ties_counterexample:
  "probability \<lparr>className = ''Clay'', probability = 1/2\<rparr>
     = probability \<lparr>className = ''Sand'', probability = 1/2\<rparr>
   \<and> topPrediction [\<lparr>className = ''Clay'', probability = 1/2\<rparr>,
                     \<lparr>className = ''Sand'', probability = 1/2\<rparr>]
     = Some \<lparr>className = ''Sand'', probability = 1/2\<rparr>
   \<and> topPrediction [\<lparr>className = ''Clay'', probability = 1/2\<rparr>,
                     \<lparr>className = ''Sand'', probability = 1/2\<rparr>]
     \<noteq> Some \<lparr>className = ''Clay'', probability = 1/2\<rparr>"
  by (simp add: topPrediction_def)

section \<open>Properties of the synthetic generator\<close>

text \<open>The loop pushes one entry per label, in label order.\<close>

lemma forEach_labels_eq:
  "forEach_labels rnd d i ls acc =
     acc @ map (\<lambda>(k, l). \<lparr>className = l,
                  probability = (if k = d then rnd (k + 1) * 0.3 + 0.4 else rnd (k + 1) * 0.2)\<rparr>)
             (enumerate i ls)"
  by (induction ls arbitrary: i acc) simp_all

lemma length_mockPredictions: "length (mockPredictions rnd ls) = length ls"
  by (simp add: mockPredictions_def forEach_labels_eq)

lemma className_mockPredictions: "map className (mockPredictions rnd ls) = ls"
proof -
  have "map (className \<circ> (\<lambda>(k, l). \<lparr>className = l, probability = g k\<rparr>)) (enumerate i ls) = ls" for g :: "nat \<Rightarrow> real" and i
    by (induction ls arbitrary: i) simp_all
  then show ?thesis
    by (simp add: mockPredictions_def forEach_labels_eq)
qed

lemma nth_mockPredictions:
  "i < length ls \<Longrightarrow>
   probability (mockPredictions rnd ls ! i) =
     (if i = dominantIndex rnd ls then rnd (i + 1) * 0.3 + 0.4 else rnd (i + 1) * 0.2)"
  by (simp add: mockPredictions_def forEach_labels_eq nth_enumerate_eq)

lemma foldl_add_probability:
  "foldl (\<lambda>sum p. sum + probability p) a ps = a + sum_list (map probability ps)"
  by (induction ps arbitrary: a) simp_all

lemma totalProb_sum_list: "totalProb rnd ls = sum_list (map probability (mockPredictions rnd ls))"
  by (simp add: totalProb_def foldl_add_probability)

lemma dominantIndex_less:
  assumes "ls \<noteq> []" "0 \<le> rnd 0" "rnd 0 < 1"
  shows "dominantIndex rnd ls < length ls"
proof -
  have n: "0 < real (length ls)" using assms(1) by simp
  have "rnd 0 * real (length ls) < real (length ls)"
    using assms(3) n by simp
  then have "\<lfloor>rnd 0 * real (length ls)\<rfloor> < int (length ls)"
    by (simp add: floor_less_iff)
  moreover have "0 \<le> \<lfloor>rnd 0 * real (length ls)\<rfloor>"
    using assms(2) by simp
  ultimately show ?thesis
    unfolding dominantIndex_def by linarith
qed

lemma mockPredictions_nonneg:
  assumes "\<forall>k. 0 \<le> rnd k"
  shows "\<forall>x \<in> set (map probability (mockPredictions rnd ls)). 0 \<le> x"
proof -
  have "0 \<le> probability (mockPredictions rnd ls ! i)" if "i < length ls" for i
    using assms by (simp add: nth_mockPredictions [OF that])
  then show ?thesis
    by (auto simp: in_set_conv_nth length_mockPredictions)
qed

lemma totalProb_ge:
  assumes "ls \<noteq> []" "\<forall>k. 0 \<le> rnd k \<and> rnd k < 1"
  shows "2 / 5 \<le> totalProb rnd ls"
proof -
  let ?d = "dominantIndex rnd ls"
  have d: "?d < length ls" using assms by (simp add: dominantIndex_less)
  have "2 / 5 \<le> probability (mockPredictions rnd ls ! ?d)"
    using assms(2) by (simp add: nth_mockPredictions [OF d])
  moreover have "probability (mockPredictions rnd ls ! ?d) \<in> set (map probability (mockPredictions rnd ls))"
    using d by (simp add: length_mockPredictions)
  then have "probability (mockPredictions rnd ls ! ?d) \<le> sum_list (map probability (mockPredictions rnd ls))"
    using mockPredictions_nonneg [of rnd ls] assms(2) by (intro member_le_sum_list) auto
  ultimately show ?thesis by (simp add: totalProb_sum_list)
qed

lemma generateMockPredictions_labels:
  "labels m = Some ls \<Longrightarrow>
   generateMockPredictions rnd (Some m) =
     map (\<lambda>p. \<lparr>className = className p, probability = probability p / totalProb rnd ls\<rparr>)
       (mockPredictions rnd ls)"
  by (simp add: generateMockPredictions_def)

lemma length_generateMockPredictions:
  "labels m = Some ls \<Longrightarrow> length (generateMockPredictions rnd (Some m)) = length ls"
  by (simp add: generateMockPredictions_labels length_mockPredictions)

lemma className_generateMockPredictions:
  "labels m = Some ls \<Longrightarrow> map className (generateMockPredictions rnd (Some m)) = ls"
  using className_mockPredictions [of rnd ls]
  by (simp add: generateMockPredictions_labels comp_def)

lemma sum_generateMockPredictions:
  assumes "labels m = Some ls" "ls \<noteq> []" "\<forall>k. 0 \<le> rnd k \<and> rnd k < 1"
  shows "sum_list (map probability (generateMockPredictions rnd (Some m))) = 1"
proof -
  have pos: "totalProb rnd ls \<noteq> 0" using totalProb_ge [OF assms(2,3)] by simp
  have "sum_list (map probability (generateMockPredictions rnd (Some m)))
          = sum_list (map (\<lambda>p. probability p * inverse (totalProb rnd ls)) (mockPredictions rnd ls))"
    by (simp add: generateMockPredictions_labels [OF assms(1)] comp_def divide_inverse)
  also have "\<dots> = sum_list (map probability (mockPredictions rnd ls)) * inverse (totalProb rnd ls)"
    by (simp add: sum_list_mult_const)
  also have "\<dots> = 1"
    using pos by (simp add: totalProb_sum_list [symmetric])
  finally show ?thesis .
qed

lemma range_generateMockPredictions:
  assumes "labels m = Some ls" "ls \<noteq> []" "\<forall>k. 0 \<le> rnd k \<and> rnd k < 1"
    and "p \<in> set (generateMockPredictions rnd (Some m))"
  shows "0 \<le> probability p \<and> probability p \<le> 1"
proof -
  have pos: "0 < totalProb rnd ls" using totalProb_ge [OF assms(2,3)] by simp
  from assms(4) obtain q where q: "q \<in> set (mockPredictions rnd ls)"
    and p: "probability p = probability q / totalProb rnd ls"
    by (auto simp: generateMockPredictions_labels [OF assms(1)])
  have nn: "\<forall>x \<in> set (map probability (mockPredictions rnd ls)). 0 \<le> x"
    using mockPredictions_nonneg [of rnd ls] assms(3) by blast
  have q0: "0 \<le> probability q" using nn q by simp
  have "probability q \<le> sum_list (map probability (mockPredictions rnd ls))"
    using q nn by (intro member_le_sum_list) auto
  then have "probability q \<le> totalProb rnd ls" by (simp add: totalProb_sum_list)
  then show ?thesis using q0 pos p by simp
qed




section \<open>Properties of acquisition and analysis\<close>

text \<open>The acquisition state in terms of the two cells.\<close>

lemma acquisitionState_Ready_iff:
  "acquisitionState s = Ready h \<longleftrightarrow> model s = Some h \<and> \<not> truthy (modelLoadError s)"
  by (auto simp: acquisitionState_def truthy_def Let_def split: option.splits if_splits)

lemma acquisitionState_Degraded_iff:
  "acquisitionState s = Degraded reason \<longleftrightarrow> modelLoadError s = Some reason \<and> reason \<noteq> []"
  by (auto simp: acquisitionState_def truthy_def Let_def split: option.splits if_splits)

lemma acquisitionState_Loading_iff:
  "acquisitionState s = Loading \<longleftrightarrow> model s = None \<and> \<not> truthy (modelLoadError s)"
  by (auto simp: acquisitionState_def truthy_def Let_def split: option.splits if_splits)

text \<open>The four ways through \<^verbatim>\<open>analyzeImage\<close> of \<^verbatim>\<open>Dashboard.tsx\<close>, each with the whole state it returns.\<close>

lemma analyzeImage_rejected:
  "\<not> truthy (image_url s) \<or> imageRef s = None \<Longrightarrow>
   analyzeImage w rnd s =
     s\<lparr>trace := trace s @ [ToastShown \<lparr>title = ''Cannot analyze'',
                                       description = ''Please upload an image first'',
                                       variant = Destructive\<rparr>]\<rparr>"
  by (auto simp: analyzeImage_def toast_def split: option.splits bool.splits)

lemma analyzeImage_fallback:
  assumes "truthy (image_url s)" "imageRef s = Some img"
    and "model s = None \<or> truthy (modelLoadError s)"
  shows "analyzeImage w rnd s =
     s\<lparr>predictions := generateMockPredictions rnd (metadata s),
       isAnalyzing := False,
       trace := trace s @ [Timeout 100, MockGenerated, Timeout 800, ToastShown analysis_complete]\<rparr>"
  using assms
  by (auto simp: analyzeImage_def analyzeImage_try_def toast_def setTimeout_def Let_def
           split: option.splits)

lemma analyzeImage_predicted:
  assumes "truthy (image_url s)" "imageRef s = Some img"
    and "model s = Some m" "\<not> truthy (modelLoadError s)" "m img w = Inr ps"
  shows "analyzeImage w rnd s =
     s\<lparr>predictions := ps,
       isAnalyzing := False,
       trace := trace s @ [Timeout 100, PredictCalled img, ToastShown analysis_complete]\<rparr>"
  using assms
  by (simp add: analyzeImage_def analyzeImage_try_def toast_def setTimeout_def Let_def)

lemma analyzeImage_predict_failed:
  assumes "truthy (image_url s)" "imageRef s = Some img"
    and "model s = Some m" "\<not> truthy (modelLoadError s)" "m img w = Inl e"
  shows "analyzeImage w rnd s =
     s\<lparr>predictions := generateMockPredictions rnd (metadata s),
       isAnalyzing := False,
       trace := trace s @ [Timeout 100, PredictCalled img,
                           ConsoleError ''Error analyzing image:'' e,
                           MockGenerated, ToastShown analysis_complete]\<rparr>"
  using assms
  by (simp add: analyzeImage_def analyzeImage_try_def analyzeImage_catch_def toast_def
        setTimeout_def console_error_def Let_def)


lemma session_loaded:
  "session (Inr h) =
     \<lparr>image_url = Some ''blob:soil'', imageRef = Some ''blob:soil'', predictions = [],
      isAnalyzing = False, metadata = Some soil_metadata, model = Some h,
      trace = [ToastShown \<lparr>title = ''Model loaded'',
                           description = ''Ready to analyze Soil Classifier'',
                           variant = Default\<rparr>,
               ToastShown \<lparr>title = ''Image uploaded'',
                           description = ''Click 'Analyze Soil' to process the image'',
                           variant = Default\<rparr>],
      modelLoadError = None\<rparr>"
  by (simp add: session_def session_env_def handleImageUpload_def loadModel_def loadModel_try_def
        loadModel_loaded_def loadModel_catch_def loadModel_catch_begin_def loadModel_catch_retry_def initialState_def toast_def console_error_def
        truthy_def Let_def modelName_or_default_def soil_metadata_def)

text \<open>Cells that \<^verbatim>\<open>analyzeImage\<close> never writes, and the outcomes of \<^verbatim>\<open>loadModel\<close>.\<close>

lemma analyzeImage_keeps_cells:
  "model (analyzeImage w rnd s) = model s
   \<and> modelLoadError (analyzeImage w rnd s) = modelLoadError s
   \<and> metadata (analyzeImage w rnd s) = metadata s
   \<and> image_url (analyzeImage w rnd s) = image_url s
   \<and> imageRef (analyzeImage w rnd s) = imageRef s"
  by (simp add: analyzeImage_def analyzeImage_try_def analyzeImage_catch_def toast_def
        setTimeout_def console_error_def Let_def
        split: option.splits bool.splits sum.splits)

lemma loadModel_try_cases:
  "loadModel_try env s = (r, s') \<Longrightarrow>
   (r = None \<and> modelLoadError s' = None
      \<and> (\<exists>h. (case window_tmImage env of Some loaded \<Rightarrow> loaded | None \<Rightarrow> tmImage_load env) = Inr h
             \<and> model s' = Some h)
      \<and> (\<exists>ok m. fetch_first env = Response ok (Json (Some m)) \<and> metadata s' = Some m))
   \<or> (\<exists>e. r = Some e)"
  by (auto simp: loadModel_try_def loadModel_loaded_def toast_def Let_def
           split: fetched.splits body.splits option.splits sum.splits prod.splits)

lemma loadModel_catch_Degraded:
  "acquisitionState (loadModel_catch env e s)
     = Degraded ''Failed to load the soil classification model. Using fallback mode.''"
  by (simp add: loadModel_catch_def loadModel_catch_begin_def loadModel_catch_retry_def acquisitionState_Degraded_iff toast_def console_error_def Let_def
        split: fetched.splits body.splits)

lemma loadModel_Ready:
  assumes "acquisitionState (loadModel env s) = Ready h"
  shows "(case window_tmImage env of Some loaded \<Rightarrow> loaded | None \<Rightarrow> tmImage_load env) = Inr h
     \<and> model (loadModel env s) = Some h
     \<and> (\<exists>ok m. fetch_first env = Response ok (Json (Some m)) \<and> metadata (loadModel env s) = Some m)"
proof -
  obtain r s' where t: "loadModel_try env s = (r, s')" by (cases "loadModel_try env s")
  show ?thesis
  proof (cases r)
    case None
    then have eq: "loadModel env s = s'" using t by (simp add: loadModel_def)
    from loadModel_try_cases [OF t] None obtain h' where
      h': "(case window_tmImage env of Some loaded \<Rightarrow> loaded | None \<Rightarrow> tmImage_load env) = Inr h'"
        "model s' = Some h'"
      and md: "\<exists>ok m. fetch_first env = Response ok (Json (Some m)) \<and> metadata s' = Some m"
      by auto
    from assms eq h'(2) have "h' = h" by (simp add: acquisitionState_Ready_iff)
    with h' md eq show ?thesis by simp
  next
    case (Some e)
    then have "loadModel env s = loadModel_catch env e s'" using t by (simp add: loadModel_def)
    with assms loadModel_catch_Degraded [of env e s'] show ?thesis by simp
  qed
qed

lemma loadModel_request_failed:
  assumes "fetch_first env = Rejected e \<or> fetch_first env = Response ok (Malformed e)"
  shows "acquisitionState (loadModel env s)
     = Degraded ''Failed to load the soil classification model. Using fallback mode.''"
proof -
  have "loadModel_try env s = (Some e, s)"
    using assms by (auto simp: loadModel_try_def)
  then have "loadModel env s = loadModel_catch env e s" by (simp add: loadModel_def)
  then show ?thesis by (simp add: loadModel_catch_Degraded)
qed


text \<open>
  The classifier that always rejects ignores the outside world, and \<^verbatim>\<open>loadModel\<close> never
  reads the status of a response.
\<close>

lemma failing_classifier_deterministic:
  "\<forall>w w'. failing_classifier img w = failing_classifier img w'"
  by (simp add: failing_classifier_def)

lemma loadModel_status_ignored:
  "loadModel (env\<lparr>fetch_first := Response ok b, fetch_retry := Response ok' b'\<rparr>) s
     = loadModel (env\<lparr>fetch_first := Response True b, fetch_retry := Response True b'\<rparr>) s"
  by (cases b; cases b'; cases "window_tmImage env")
     (simp_all add: loadModel_def loadModel_try_def loadModel_catch_def loadModel_catch_begin_def loadModel_catch_retry_def Let_def
        split: prod.splits option.splits)

text \<open>
  The rendered component: its cells after \<^verbatim>\<open>loadModel\<close> are those of \<open>loadModel\<close>; a
  click runs \<open>analyzeImage\<close> on the cells the handler in use has seen, which are the
  current ones when no metadata has arrived since it was built. In the degraded state
  the click publishes what the generator makes of the metadata the handler has seen:
  a distribution over the labels when that metadata has a non-empty label list.
\<close>

lemma deps_memo_rerender: "deps (memo (rerender c v)) = deps c"
  by (simp add: rerender_def)

lemma cells_rerender: "cells (rerender c v) = c"
  by (simp add: rerender_def)

lemma cells_loadModel_rendered: "cells (loadModel_rendered env v) = loadModel env (cells v)"
  by (simp add: loadModel_rendered_def loadModel_def loadModel_catch_def cells_rerender Let_def
        split: prod.splits option.splits)

lemma click_analyze_seen:
  "cells (click_analyze w rnd v) =
     (analyzeImage w rnd
        ((cells v)\<lparr>model := model (memo v), image_url := image_url (memo v),
                   modelLoadError := modelLoadError (memo v), metadata := metadata (memo v)\<rparr>))
       \<lparr>model := model (cells v), image_url := image_url (cells v),
        modelLoadError := modelLoadError (cells v), metadata := metadata (cells v)\<rparr>"
  by (simp add: click_analyze_def cells_rerender Let_def)

lemma click_analyze_current:
  assumes "deps (memo v) = deps (cells v)" and "metadata (memo v) = metadata (cells v)"
  shows "cells (click_analyze w rnd v) = analyzeImage w rnd (cells v)"
proof -
  from assms(1) have d: "model (memo v) = model (cells v)" "image_url (memo v) = image_url (cells v)"
    "modelLoadError (memo v) = modelLoadError (cells v)"
    by (simp_all add: deps_def)
  have seen: "(cells v)\<lparr>model := model (memo v), image_url := image_url (memo v),
                   modelLoadError := modelLoadError (memo v), metadata := metadata (memo v)\<rparr>
              = cells v"
    by (simp add: d assms(2))
  note kept = analyzeImage_keeps_cells [of w rnd "cells v"]
  have "(analyzeImage w rnd (cells v))
          \<lparr>model := model (analyzeImage w rnd (cells v)),
           image_url := image_url (analyzeImage w rnd (cells v)),
           modelLoadError := modelLoadError (analyzeImage w rnd (cells v)),
           metadata := metadata (analyzeImage w rnd (cells v))\<rparr>
        = analyzeImage w rnd (cells v)"
    by simp
  then show ?thesis
    unfolding click_analyze_seen seen using kept by simp
qed

lemma click_analyze_degraded:
  assumes "acquisitionState (cells v) = Degraded reason"
    and "deps (memo v) = deps (cells v)"
    and "truthy (image_url (cells v))" and "imageRef (cells v) = Some img"
  shows "predictions (cells (click_analyze w rnd v)) = generateMockPredictions rnd (metadata (memo v))"
proof -
  let ?seen = "(cells v)\<lparr>model := model (memo v), image_url := image_url (memo v),
                   modelLoadError := modelLoadError (memo v), metadata := metadata (memo v)\<rparr>"
  from assms(2) have d: "model (memo v) = model (cells v)" "image_url (memo v) = image_url (cells v)"
    "modelLoadError (memo v) = modelLoadError (cells v)"
    by (simp_all add: deps_def)
  have err: "truthy (modelLoadError ?seen)"
    using assms(1) by (simp add: d acquisitionState_Degraded_iff truthy_def)
  have img: "truthy (image_url ?seen)" "imageRef ?seen = Some img"
    using assms(3,4) by (simp_all add: d)
  have "analyzeImage w rnd ?seen =
     ?seen\<lparr>predictions := generateMockPredictions rnd (metadata ?seen),
       isAnalyzing := False,
       trace := trace ?seen @ [Timeout 100, MockGenerated, Timeout 800, ToastShown analysis_complete]\<rparr>"
    using img err by (intro analyzeImage_fallback) simp_all
  then show ?thesis
    by (simp add: click_analyze_seen)
qed

lemma late_metadata_session_cells:
  "cells late_metadata_session =
     \<lparr>image_url = Some ''blob:soil'', imageRef = Some ''blob:soil'', predictions = [],
      isAnalyzing = False, metadata = Some soil_metadata, model = None,
      trace = [ToastShown \<lparr>title = ''Image uploaded'',
                           description = ''Click 'Analyze Soil' to process the image'',
                           variant = Default\<rparr>,
               ConsoleError ''Error loading model:'' (Error ''Failed to fetch''),
               ToastShown \<lparr>title = ''Model loading failed'',
                           description = ''Using fallback classification mode'',
                           variant = Destructive\<rparr>],
      modelLoadError = Some ''Failed to load the soil classification model. Using fallback mode.''\<rparr>"
  by (simp add: late_metadata_session_def late_metadata_env_def loadModel_rendered_def upload_def
        mount_def rerender_def handleImageUpload_def loadModel_try_def loadModel_catch_begin_def
        loadModel_catch_retry_def initialState_def toast_def console_error_def truthy_def Let_def)

lemma late_metadata_session_memo:
  "metadata (memo late_metadata_session) = None
   \<and> deps (memo late_metadata_session) = deps (cells late_metadata_session)"
  by (simp add: late_metadata_session_def late_metadata_env_def loadModel_rendered_def upload_def
        mount_def rerender_def deps_def handleImageUpload_def loadModel_try_def
        loadModel_catch_begin_def loadModel_catch_retry_def initialState_def toast_def
        console_error_def truthy_def Let_def)

lemma click_analyze_degraded_distribution:
  assumes "acquisitionState (cells v) = Degraded reason"
    and "deps (memo v) = deps (cells v)"
    and "truthy (image_url (cells v))" and "imageRef (cells v) = Some img"
    and "metadata (memo v) = Some m" and "labels m = Some ls" and "ls \<noteq> []"
    and "\<forall>k. 0 \<le> rnd k \<and> rnd k < 1"
  shows "length (predictions (cells (click_analyze w rnd v))) = length ls
     \<and> \<bar>sum_list (map probability (predictions (cells (click_analyze w rnd v)))) - 1\<bar>
          \<le> 1 / 10 ^ 6"
proof -
  have ps: "predictions (cells (click_analyze w rnd v)) = generateMockPredictions rnd (Some m)"
    using click_analyze_degraded [OF assms(1,2,3,4), of w rnd] assms(5) by simp
  show ?thesis
    unfolding ps
    using length_generateMockPredictions [OF assms(6)] sum_generateMockPredictions [OF assms(6,7,8)]
    by simp
qed

text \<open>
  When the image is uploaded after the load has finished, the upload rebuilds the
  handler and the click publishes a distribution over the three labels.
\<close>

lemma upload_after_load_publishes_distribution:
  "predictions (cells (click_analyze 0 half
       (upload (Some ''blob:soil'') (loadModel_rendered late_metadata_env mount))))
     = [\<lparr>className = ''Clay'', probability = 2 / 15\<rparr>,
        \<lparr>className = ''Sand'', probability = 11 / 15\<rparr>,
        \<lparr>className = ''Loam'', probability = 2 / 15\<rparr>]"
proof -
  let ?v = "upload (Some ''blob:soil'') (loadModel_rendered late_metadata_env mount)"
  have cells: "cells ?v =
     \<lparr>image_url = Some ''blob:soil'', imageRef = Some ''blob:soil'', predictions = [],
      isAnalyzing = False, metadata = Some soil_metadata, model = None,
      trace = [ConsoleError ''Error loading model:'' (Error ''Failed to fetch''),
               ToastShown \<lparr>title = ''Model loading failed'',
                           description = ''Using fallback classification mode'',
                           variant = Destructive\<rparr>,
               ToastShown \<lparr>title = ''Image uploaded'',
                           description = ''Click 'Analyze Soil' to process the image'',
                           variant = Default\<rparr>],
      modelLoadError = Some ''Failed to load the soil classification model. Using fallback mode.''\<rparr>"
    by (simp add: late_metadata_env_def loadModel_rendered_def upload_def
        mount_def rerender_def handleImageUpload_def loadModel_try_def loadModel_catch_begin_def
        loadModel_catch_retry_def initialState_def toast_def console_error_def truthy_def Let_def)
  have memo: "memo ?v = cells ?v"
    by (simp add: late_metadata_env_def loadModel_rendered_def upload_def deps_def
        mount_def rerender_def handleImageUpload_def loadModel_try_def loadModel_catch_begin_def
        loadModel_catch_retry_def initialState_def toast_def console_error_def truthy_def Let_def)
  have a: "acquisitionState (cells ?v)
     = Degraded ''Failed to load the soil classification model. Using fallback mode.''"
    by (simp add: cells acquisitionState_Degraded_iff)
  have b: "truthy (image_url (cells ?v))" by (simp add: cells truthy_def)
  have c: "imageRef (cells ?v) = Some ''blob:soil''" by (simp add: cells)
  have g: "deps (memo ?v) = deps (cells ?v)" by (simp add: memo)
  have "predictions (cells (click_analyze 0 half ?v)) = generateMockPredictions half (metadata (memo ?v))"
    by (rule click_analyze_degraded [OF a g b c])
  also have "metadata (memo ?v) = Some soil_metadata"
    unfolding memo by (simp add: cells)
  also have "generateMockPredictions half (Some soil_metadata)
     = [\<lparr>className = ''Clay'', probability = 2 / 15\<rparr>,
        \<lparr>className = ''Sand'', probability = 11 / 15\<rparr>,
        \<lparr>className = ''Loam'', probability = 2 / 15\<rparr>]"
    by (simp add: generateMockPredictions_def soil_metadata_def mockPredictions_def
          totalProb_def dominantIndex_def half_def)
  finally show ?thesis .
qed

section \<open>The claims\<close>

text \<open>
  Claim C10. The synthetic generator is a total function and never divides by zero.
  Without metadata, or without a label list in it, it returns the empty sequence (and
  so it does for an empty label list, where nothing is divided). For a non-empty label
  list and random numbers in \<open>[0, 1)\<close> the dominant index is a position of the list,
  the raw probability there is at least 0.4, hence the raw sum \<^verbatim>\<open>totalProb\<close> is at
  least 0.4 and strictly positive; every returned probability is the true quotient of
  the raw probability by that sum and lies in \<open>[0, 1]\<close>.
\<close>

theorem generateMockPredictions_division_defined:
  "generateMockPredictions rnd None = []
   \<and> (labels m = None \<longrightarrow> generateMockPredictions rnd (Some m) = [])
   \<and> (labels m = Some [] \<longrightarrow> generateMockPredictions rnd (Some m) = [])
   \<and> (labels m = Some ls \<and> ls \<noteq> [] \<and> (\<forall>k. 0 \<le> rnd k \<and> rnd k < 1) \<longrightarrow>
        dominantIndex rnd ls < length ls
        \<and> 0.4 \<le> probability (mockPredictions rnd ls ! dominantIndex rnd ls)
        \<and> 0.4 \<le> totalProb rnd ls
        \<and> length (generateMockPredictions rnd (Some m)) = length ls
        \<and> (\<forall>i<length ls.
              probability (generateMockPredictions rnd (Some m) ! i) * totalProb rnd ls
                = probability (mockPredictions rnd ls ! i)
              \<and> 0 \<le> probability (generateMockPredictions rnd (Some m) ! i)
              \<and> probability (generateMockPredictions rnd (Some m) ! i) \<le> 1))"
proof (intro conjI impI)
  show "generateMockPredictions rnd None = []"
    by (simp add: generateMockPredictions_def)
  show "generateMockPredictions rnd (Some m) = []" if "labels m = None"
    using that by (simp add: generateMockPredictions_def)
  show "generateMockPredictions rnd (Some m) = []" if "labels m = Some []"
    using that by (simp add: generateMockPredictions_def mockPredictions_def)
next
  assume h: "labels m = Some ls \<and> ls \<noteq> [] \<and> (\<forall>k. 0 \<le> rnd k \<and> rnd k < 1)"
  then have m: "labels m = Some ls" and ne: "ls \<noteq> []"
    and rnd: "\<forall>k. 0 \<le> rnd k \<and> rnd k < 1" by simp_all
  show d: "dominantIndex rnd ls < length ls"
    using ne rnd by (simp add: dominantIndex_less)
  show "0.4 \<le> probability (mockPredictions rnd ls ! dominantIndex rnd ls)"
    using rnd by (simp add: nth_mockPredictions [OF d])
  show total: "0.4 \<le> totalProb rnd ls"
    using totalProb_ge [OF ne rnd] by simp
  show len: "length (generateMockPredictions rnd (Some m)) = length ls"
    by (rule length_generateMockPredictions [OF m])
  show "\<forall>i<length ls.
          probability (generateMockPredictions rnd (Some m) ! i) * totalProb rnd ls
            = probability (mockPredictions rnd ls ! i)
          \<and> 0 \<le> probability (generateMockPredictions rnd (Some m) ! i)
          \<and> probability (generateMockPredictions rnd (Some m) ! i) \<le> 1"
  proof (intro allI impI)
    fix i assume i: "i < length ls"
    have "generateMockPredictions rnd (Some m) ! i \<in> set (generateMockPredictions rnd (Some m))"
      using i len by simp
    from range_generateMockPredictions [OF m ne rnd this]
    have r: "0 \<le> probability (generateMockPredictions rnd (Some m) ! i)
           \<and> probability (generateMockPredictions rnd (Some m) ! i) \<le> 1" .
    have "probability (generateMockPredictions rnd (Some m) ! i)
            = probability (mockPredictions rnd ls ! i) / totalProb rnd ls"
      using i by (simp add: generateMockPredictions_labels [OF m] length_mockPredictions)
    then have "probability (generateMockPredictions rnd (Some m) ! i) * totalProb rnd ls
            = probability (mockPredictions rnd ls ! i)"
      using total by simp
    with r show "probability (generateMockPredictions rnd (Some m) ! i) * totalProb rnd ls
            = probability (mockPredictions rnd ls ! i)
          \<and> 0 \<le> probability (generateMockPredictions rnd (Some m) ! i)
          \<and> probability (generateMockPredictions rnd (Some m) ! i) \<le> 1" by simp
  qed
qed

theorem generateMockPredictions_division_defined_witness:
  "labels soil_metadata = Some [''Clay'', ''Sand'', ''Loam'']
   \<and> [''Clay'', ''Sand'', ''Loam''] \<noteq> []
   \<and> (\<forall>k. 0 \<le> half k \<and> half k < 1)
   \<and> dominantIndex half [''Clay'', ''Sand'', ''Loam''] < length [''Clay'', ''Sand'', ''Loam'']
   \<and> 0.4 \<le> totalProb half [''Clay'', ''Sand'', ''Loam'']
   \<and> length (generateMockPredictions half (Some soil_metadata)) = length [''Clay'', ''Sand'', ''Loam'']
   \<and> generateMockPredictions half None = []"
  using generateMockPredictions_division_defined [of half soil_metadata "[''Clay'', ''Sand'', ''Loam'']"]
  by (simp add: soil_metadata_def half_def)

text \<open>
  Claim C2 at a failing input. The user uploads an image while the first metadata
  request is pending; that request rejects; the \<^verbatim>\<open>catch\<close> block records the load
  error, which rebuilds the memoised handler while \<^verbatim>\<open>metadata\<close> is still \<^verbatim>\<open>null\<close>; the
  second request then delivers the metadata with three labels, which rebuilds nothing,
  since \<^verbatim>\<open>metadata\<close> is not among the dependencies of \<^verbatim>\<open>useCallback\<close>. The component
  is now degraded, with an image and a non-empty label list loaded, and a click on
  "Analyze Soil" publishes the empty sequence: length 0, not 3, and sum 0, not 1.
  (Where the handler in use was built after the metadata arrived, the claim holds:
  lemma \<open>click_analyze_degraded_distribution\<close>.)
\<close>

theorem late_metadata_analysis_publishes_nothing:
  "acquisitionState (cells late_metadata_session)
     = Degraded ''Failed to load the soil classification model. Using fallback mode.''
   \<and> truthy (image_url (cells late_metadata_session))
   \<and> imageRef (cells late_metadata_session) = Some ''blob:soil''
   \<and> metadata (cells late_metadata_session) = Some soil_metadata
   \<and> labels soil_metadata = Some [''Clay'', ''Sand'', ''Loam'']
   \<and> metadata (memo late_metadata_session) = None
   \<and> predictions (cells (click_analyze 0 half late_metadata_session)) = []"
proof -
  let ?v = late_metadata_session
  have a: "acquisitionState (cells ?v)
     = Degraded ''Failed to load the soil classification model. Using fallback mode.''"
    by (simp add: late_metadata_session_cells acquisitionState_Degraded_iff)
  have b: "truthy (image_url (cells ?v))"
    by (simp add: late_metadata_session_cells truthy_def)
  have c: "imageRef (cells ?v) = Some ''blob:soil''"
    by (simp add: late_metadata_session_cells)
  have d: "metadata (cells ?v) = Some soil_metadata"
    by (simp add: late_metadata_session_cells)
  have e: "labels soil_metadata = Some [''Clay'', ''Sand'', ''Loam'']"
    by (simp add: soil_metadata_def)
  have f: "metadata (memo ?v) = None" and g: "deps (memo ?v) = deps (cells ?v)"
    using late_metadata_session_memo by simp_all
  have "predictions (cells (click_analyze 0 half ?v)) = generateMockPredictions half (metadata (memo ?v))"
    by (rule click_analyze_degraded [OF a g b c])
  then have h: "predictions (cells (click_analyze 0 half ?v)) = []"
    by (simp add: f generateMockPredictions_def)
  show ?thesis
    by (intro conjI) (rule a b c d e f h)+
qed

text \<open>
  Claim C6. When no image has been uploaded (\<^verbatim>\<open>image\<close> is falsy or no image element is
  rendered), \<^verbatim>\<open>analyzeImage\<close> returns the state it was given with exactly one more
  effect, the toast "Cannot analyze": the published predictions and the
  \<^verbatim>\<open>isAnalyzing\<close> flag are unchanged, and neither \<^verbatim>\<open>predict\<close> nor the synthetic
  generator nor a timer appears in the trace.
\<close>

theorem analyzeImage_without_image_rejected:
  assumes "\<not> truthy (image_url s) \<or> imageRef s = None"
  shows "analyzeImage w rnd s =
           s\<lparr>trace := trace s @ [ToastShown \<lparr>title = ''Cannot analyze'',
                                             description = ''Please upload an image first'',
                                             variant = Destructive\<rparr>]\<rparr>
     \<and> predictions (analyzeImage w rnd s) = predictions s
     \<and> isAnalyzing (analyzeImage w rnd s) = isAnalyzing s"
  using analyzeImage_rejected [OF assms] by simp

theorem analyzeImage_without_image_rejected_witness:
  "\<not> truthy (image_url (initialState :: nat Dashboard))
   \<and> analyzeImage 0 half (initialState :: nat Dashboard) =
       initialState\<lparr>trace := [ToastShown \<lparr>title = ''Cannot analyze'',
                                           description = ''Please upload an image first'',
                                           variant = Destructive\<rparr>]\<rparr>
   \<and> predictions (analyzeImage 0 half (initialState :: nat Dashboard)) = []"
  using analyzeImage_without_image_rejected [of "initialState :: nat Dashboard" 0 half]
  by (simp add: initialState_def truthy_def)

text \<open>
  Claim C9. In the stricter variant \<^verbatim>\<open>unnamed/part_000\<close>, a run of \<^verbatim>\<open>analyzeImage\<close>
  with an image uploaded but no model loaded returns the state it was given with
  exactly one more effect, the toast "Model not loaded": no \<^verbatim>\<open>predict\<close> call is made
  and the published predictions are unchanged.
\<close>

theorem analyzeImage_part_000_model_not_ready:
  assumes "truthy (image_url s)" and "imageRef s = Some img" and "model s = None"
  shows "analyzeImage_part_000 w s =
           s\<lparr>trace := trace s @
               [ToastShown \<lparr>title = ''Model not loaded'',
                            description = ''The soil classification model is not loaded yet'',
                            variant = Destructive\<rparr>]\<rparr>
     \<and> predictions (analyzeImage_part_000 w s) = predictions s"
  using assms by (simp add: analyzeImage_part_000_def toast_def)

theorem analyzeImage_part_000_model_not_ready_witness:
  "truthy (image_url loading_part_000)
   \<and> imageRef loading_part_000 = Some ''blob:soil''
   \<and> model loading_part_000 = None
   \<and> trace (analyzeImage_part_000 0 loading_part_000) =
       [ToastShown \<lparr>title = ''Image uploaded'',
                    description = ''Click 'Analyze Soil' to process the image'',
                    variant = Default\<rparr>,
        ToastShown \<lparr>title = ''Model not loaded'',
                    description = ''The soil classification model is not loaded yet'',
                    variant = Destructive\<rparr>]
   \<and> predictions (analyzeImage_part_000 0 loading_part_000) = []"
  using analyzeImage_part_000_model_not_ready [of loading_part_000 "''blob:soil''" 0]
  by (simp add: loading_part_000_def initialState_part_000_def handleImageUpload_def toast_def
        truthy_def)

text \<open>
  Claim C3. When a run of \<^verbatim>\<open>loadModel\<close> ends in the Ready state, the handle of that
  state is the classifier that \<^verbatim>\<open>load\<close> returned, and it is held in the cell
  \<^verbatim>\<open>model\<close>. In a state where acquisition has reached Ready with handle \<open>h\<close> and an
  image is uploaded: the handle is held in the cell \<^verbatim>\<open>model\<close>; a run of
  \<^verbatim>\<open>analyzeImage\<close> calls \<^verbatim>\<open>predict\<close> on the image element; when \<^verbatim>\<open>predict\<close> returns,
  its output is published unmodified and the effects of the run are the settling
  delay, the \<^verbatim>\<open>predict\<close> call and the completion toast, so the synthetic generator
  is not invoked; the generator appears in the trace only in the run where
  \<^verbatim>\<open>predict\<close> itself rejected. The run leaves the state Ready with the same handle
  and the same image, so this holds for every subsequent run as well.
\<close>

theorem ready_analysis_invokes_predict:
  assumes "acquisitionState s = Ready h" and "truthy (image_url s)" and "imageRef s = Some img"
  shows "model s = Some h
     \<and> (\<forall>ps. h img w = Inr ps \<longrightarrow>
          analyzeImage w rnd s =
            s\<lparr>predictions := ps, isAnalyzing := False,
              trace := trace s @ [Timeout 100, PredictCalled img, ToastShown analysis_complete]\<rparr>)
     \<and> (\<forall>e. h img w = Inl e \<longrightarrow>
          trace (analyzeImage w rnd s) =
            trace s @ [Timeout 100, PredictCalled img, ConsoleError ''Error analyzing image:'' e,
                       MockGenerated, ToastShown analysis_complete])
     \<and> acquisitionState (analyzeImage w rnd s) = Ready h
     \<and> image_url (analyzeImage w rnd s) = image_url s
     \<and> imageRef (analyzeImage w rnd s) = imageRef s
     \<and> (acquisitionState (loadModel env s0) = Ready h' \<longrightarrow>
          model (loadModel env s0) = Some h'
          \<and> (case window_tmImage env of Some loaded \<Rightarrow> loaded | None \<Rightarrow> tmImage_load env)
                = Inr h')"
proof -
  from assms(1) have m: "model s = Some h" and ok: "\<not> truthy (modelLoadError s)"
    by (simp_all add: acquisitionState_Ready_iff)
  have "analyzeImage w rnd s =
          s\<lparr>predictions := ps, isAnalyzing := False,
            trace := trace s @ [Timeout 100, PredictCalled img, ToastShown analysis_complete]\<rparr>"
    if "h img w = Inr ps" for ps
    by (rule analyzeImage_predicted [OF assms(2,3) m ok that])
  moreover have "trace (analyzeImage w rnd s) =
          trace s @ [Timeout 100, PredictCalled img, ConsoleError ''Error analyzing image:'' e,
                     MockGenerated, ToastShown analysis_complete]"
    if "h img w = Inl e" for e
    by (simp add: analyzeImage_predict_failed [OF assms(2,3) m ok that])
  moreover have "acquisitionState (analyzeImage w rnd s) = Ready h"
    using m ok analyzeImage_keeps_cells [of w rnd s] by (simp add: acquisitionState_Ready_iff)
  moreover have "model (loadModel env s0) = Some h'
          \<and> (case window_tmImage env of Some loaded \<Rightarrow> loaded | None \<Rightarrow> tmImage_load env)
                = Inr h'"
    if "acquisitionState (loadModel env s0) = Ready h'"
    using loadModel_Ready [OF that] by simp
  ultimately show ?thesis
    using m analyzeImage_keeps_cells [of w rnd s] by blast
qed

theorem ready_analysis_invokes_predict_witness:
  "acquisitionState (session (Inr soil_classifier)) = Ready soil_classifier
   \<and> truthy (image_url (session (Inr soil_classifier)))
   \<and> imageRef (session (Inr soil_classifier)) = Some ''blob:soil''
   \<and> model (session (Inr soil_classifier)) = Some soil_classifier
   \<and> predictions (analyzeImage 0 half (session (Inr soil_classifier)))
       = [\<lparr>className = ''Clay'', probability = 1 / 5\<rparr>,
          \<lparr>className = ''Sand'', probability = 7 / 10\<rparr>,
          \<lparr>className = ''Loam'', probability = 1 / 10\<rparr>]
   \<and> trace (analyzeImage 0 half (session (Inr soil_classifier)))
       = trace (session (Inr soil_classifier))
           @ [Timeout 100, PredictCalled ''blob:soil'', ToastShown analysis_complete]
   \<and> acquisitionState (analyzeImage 0 half (session (Inr soil_classifier))) = Ready soil_classifier"
proof -
  let ?s = "session (Inr soil_classifier)"
  let ?ps = "[\<lparr>className = ''Clay'', probability = 1 / 5\<rparr>,
              \<lparr>className = ''Sand'', probability = 7 / 10\<rparr>,
              \<lparr>className = ''Loam'', probability = 1 / 10\<rparr>]"
  have a: "acquisitionState ?s = Ready soil_classifier"
    by (simp add: session_loaded acquisitionState_Ready_iff truthy_def)
  have b: "truthy (image_url ?s)"
    by (simp add: session_loaded truthy_def)
  have c: "imageRef ?s = Some ''blob:soil''"
    by (simp add: session_loaded)
  have p: "soil_classifier ''blob:soil'' 0 = Inr ?ps"
    by (simp add: soil_classifier_def)
  note run = ready_analysis_invokes_predict
      [of ?s soil_classifier "''blob:soil''" 0 half "session_env (Inr soil_classifier)"
          initialState soil_classifier, OF a b c]
  from run have held: "model ?s = Some soil_classifier"
    and still: "acquisitionState (analyzeImage 0 half ?s) = Ready soil_classifier"
    by blast+
  from run have "soil_classifier ''blob:soil'' 0 = Inr ?ps \<longrightarrow>
      analyzeImage 0 half ?s =
        ?s\<lparr>predictions := ?ps, isAnalyzing := False,
           trace := trace ?s @ [Timeout 100, PredictCalled ''blob:soil'',
                                ToastShown analysis_complete]\<rparr>"
    by blast
  with p have eq: "analyzeImage 0 half ?s =
        ?s\<lparr>predictions := ?ps, isAnalyzing := False,
           trace := trace ?s @ [Timeout 100, PredictCalled ''blob:soil'',
                                ToastShown analysis_complete]\<rparr>"
    by blast
  have published: "predictions (analyzeImage 0 half ?s) = ?ps"
    and effects: "trace (analyzeImage 0 half ?s)
       = trace ?s @ [Timeout 100, PredictCalled ''blob:soil'', ToastShown analysis_complete]"
    by (simp_all add: eq)
  show ?thesis
    by (intro conjI) (rule a b c held published effects still)+
qed

text \<open>
  Claim C4. In the Ready state with an image uploaded, when \<^verbatim>\<open>predict\<close> throws, the
  \<^verbatim>\<open>try\<close> block ends with that error, the \<^verbatim>\<open>catch\<close> block handles it, and the run
  of \<^verbatim>\<open>analyzeImage\<close> ends normally with the completion toast and
  \<^verbatim>\<open>isAnalyzing\<close> reset. With metadata with a non-empty label list loaded and
  random numbers in \<open>[0, 1)\<close>, the published result is the synthetic distribution
  over the metadata labels: one entry per label in label order, every probability in
  \<open>[0, 1]\<close>, sum 1.
\<close>

theorem predict_failure_falls_back:
  assumes "acquisitionState s = Ready h" and "truthy (image_url s)" and "imageRef s = Some img"
    and "h img w = Inl e"
    and "metadata s = Some m" and "labels m = Some ls" and "ls \<noteq> []"
    and "\<forall>k. 0 \<le> rnd k \<and> rnd k < 1"
  shows "fst (analyzeImage_try w rnd img (s\<lparr>isAnalyzing := True\<rparr>)) = Some e
     \<and> predictions (analyzeImage w rnd s) = generateMockPredictions rnd (Some m)
     \<and> map className (predictions (analyzeImage w rnd s)) = ls
     \<and> sum_list (map probability (predictions (analyzeImage w rnd s))) = 1
     \<and> (\<forall>p \<in> set (predictions (analyzeImage w rnd s)). 0 \<le> probability p \<and> probability p \<le> 1)
     \<and> isAnalyzing (analyzeImage w rnd s) = False
     \<and> trace (analyzeImage w rnd s) =
          trace s @ [Timeout 100, PredictCalled img, ConsoleError ''Error analyzing image:'' e,
                     MockGenerated, ToastShown analysis_complete]"
proof -
  from assms(1) have m: "model s = Some h" and ok: "\<not> truthy (modelLoadError s)"
    by (simp_all add: acquisitionState_Ready_iff)
  have thrown: "fst (analyzeImage_try w rnd img (s\<lparr>isAnalyzing := True\<rparr>)) = Some e"
    using m ok assms(4) by (simp add: analyzeImage_try_def setTimeout_def Let_def)
  note run = analyzeImage_predict_failed [OF assms(2,3) m ok assms(4), of rnd]
  have ps: "predictions (analyzeImage w rnd s) = generateMockPredictions rnd (Some m)"
    using run assms(5) by simp
  have "\<forall>p \<in> set (generateMockPredictions rnd (Some m)). 0 \<le> probability p \<and> probability p \<le> 1"
    using range_generateMockPredictions [OF assms(6,7,8)] by blast
  then show ?thesis
    unfolding ps
    using thrown run className_generateMockPredictions [OF assms(6), of rnd]
      sum_generateMockPredictions [OF assms(6,7,8)]
    by simp
qed

theorem predict_failure_falls_back_witness:
  "acquisitionState (session (Inr failing_classifier)) = Ready failing_classifier
   \<and> truthy (image_url (session (Inr failing_classifier)))
   \<and> imageRef (session (Inr failing_classifier)) = Some ''blob:soil''
   \<and> failing_classifier ''blob:soil'' 0 = Inl (Error ''malformed image'')
   \<and> metadata (session (Inr failing_classifier)) = Some soil_metadata
   \<and> labels soil_metadata = Some [''Clay'', ''Sand'', ''Loam'']
   \<and> (\<forall>k. 0 \<le> half k \<and> half k < 1)
   \<and> map className (predictions (analyzeImage 0 half (session (Inr failing_classifier))))
       = [''Clay'', ''Sand'', ''Loam'']
   \<and> sum_list (map probability (predictions (analyzeImage 0 half (session (Inr failing_classifier))))) = 1"
proof -
  have a: "acquisitionState (session (Inr failing_classifier)) = Ready failing_classifier"
    by (simp add: session_loaded acquisitionState_Ready_iff truthy_def)
  have b: "truthy (image_url (session (Inr failing_classifier)))"
    by (simp add: session_loaded truthy_def)
  have c: "imageRef (session (Inr failing_classifier)) = Some ''blob:soil''"
    by (simp add: session_loaded)
  have d: "failing_classifier ''blob:soil'' 0 = Inl (Error ''malformed image'')"
    by (simp add: failing_classifier_def)
  have e: "metadata (session (Inr failing_classifier)) = Some soil_metadata"
    by (simp add: session_loaded)
  have f: "labels soil_metadata = Some [''Clay'', ''Sand'', ''Loam'']"
    by (simp add: soil_metadata_def)
  have g: "[''Clay'', ''Sand'', ''Loam''] \<noteq> []" by simp
  have r: "\<forall>k. 0 \<le> half k \<and> half k < 1" by (simp add: half_def)
  from predict_failure_falls_back [OF a b c d e f g r] a b c d e f r
  show ?thesis by blast
qed



text \<open>
  Claim C8, as far as it holds. In the Ready state with an image uploaded, when
  \<^verbatim>\<open>predict\<close> is deterministic on that image and returns a result for it, two runs of
  \<^verbatim>\<open>analyzeImage\<close> with the same image publish the same prediction sequence, the
  result of \<^verbatim>\<open>predict\<close>: the second run after the first, or both from the same
  state, whatever the outside world and the random numbers are at either run.
\<close>

theorem analyze_twice_same_result:
  assumes "acquisitionState s = Ready h" and "truthy (image_url s)" and "imageRef s = Some img"
    and "\<forall>w w'. h img w = h img w'"
    and "h img w1 = Inr ps"
  shows "predictions (analyzeImage w1 rnd1 s) = ps
     \<and> predictions (analyzeImage w2 rnd2 (analyzeImage w1 rnd1 s)) = ps
     \<and> predictions (analyzeImage w2 rnd2 s) = ps"
proof -
  let ?s' = "analyzeImage w1 rnd1 s"
  from assms(1) have m: "model s = Some h" and ok: "\<not> truthy (modelLoadError s)"
    by (simp_all add: acquisitionState_Ready_iff)
  have again: "h img w2 = Inr ps" using assms(4,5) by metis
  have first: "predictions ?s' = ps"
    by (simp add: analyzeImage_predicted [OF assms(2,3) m ok assms(5)])
  have other: "predictions (analyzeImage w2 rnd2 s) = ps"
    by (simp add: analyzeImage_predicted [OF assms(2,3) m ok again])
  note kept = analyzeImage_keeps_cells [of w1 rnd1 s]
  have "truthy (image_url ?s')" "imageRef ?s' = Some img" "model ?s' = Some h"
    "\<not> truthy (modelLoadError ?s')"
    using kept assms(2,3) m ok by simp_all
  then have "predictions (analyzeImage w2 rnd2 ?s') = ps"
    using again by (simp add: analyzeImage_predicted [where m = h and img = img and ps = ps])
  with first other show ?thesis by simp
qed

theorem analyze_twice_same_result_witness:
  "acquisitionState (session (Inr soil_classifier)) = Ready soil_classifier
   \<and> truthy (image_url (session (Inr soil_classifier)))
   \<and> imageRef (session (Inr soil_classifier)) = Some ''blob:soil''
   \<and> (\<forall>w w'. soil_classifier ''blob:soil'' w = soil_classifier ''blob:soil'' w')
   \<and> predictions (analyzeImage 0 half (session (Inr soil_classifier)))
       = [\<lparr>className = ''Clay'', probability = 1 / 5\<rparr>,
          \<lparr>className = ''Sand'', probability = 7 / 10\<rparr>,
          \<lparr>className = ''Loam'', probability = 1 / 10\<rparr>]
   \<and> predictions (analyzeImage 1 quarter (analyzeImage 0 half (session (Inr soil_classifier))))
       = [\<lparr>className = ''Clay'', probability = 1 / 5\<rparr>,
          \<lparr>className = ''Sand'', probability = 7 / 10\<rparr>,
          \<lparr>className = ''Loam'', probability = 1 / 10\<rparr>]"
proof -
  have a: "acquisitionState (session (Inr soil_classifier)) = Ready soil_classifier"
    by (simp add: session_loaded acquisitionState_Ready_iff truthy_def)
  have b: "truthy (image_url (session (Inr soil_classifier)))"
    by (simp add: session_loaded truthy_def)
  have c: "imageRef (session (Inr soil_classifier)) = Some ''blob:soil''"
    by (simp add: session_loaded)
  have d: "\<forall>w w'. soil_classifier ''blob:soil'' w = soil_classifier ''blob:soil'' w'"
    by (simp add: soil_classifier_def)
  have p: "soil_classifier ''blob:soil'' 0
       = Inr [\<lparr>className = ''Clay'', probability = 1 / 5\<rparr>,
              \<lparr>className = ''Sand'', probability = 7 / 10\<rparr>,
              \<lparr>className = ''Loam'', probability = 1 / 10\<rparr>]"
    by (simp add: soil_classifier_def)
  note run = analyze_twice_same_result
      [of "session (Inr soil_classifier)" soil_classifier "''blob:soil''" 0
          "[\<lparr>className = ''Clay'', probability = 1 / 5\<rparr>,
            \<lparr>className = ''Sand'', probability = 7 / 10\<rparr>,
            \<lparr>className = ''Loam'', probability = 1 / 10\<rparr>]" half 1 quarter,
       OF a b c d p]
  show ?thesis
    by (intro conjI) (rule a b c d conjunct1 [OF run] conjunct1 [OF conjunct2 [OF run]])+
qed

text \<open>
  Claim C8 as stated fails for a deterministic \<^verbatim>\<open>predict\<close> that rejects: each run then
  publishes a fresh synthetic sequence. Here \<^verbatim>\<open>predict\<close> rejects the image in both
  runs, \<^verbatim>\<open>Math.random()\<close> returns 0.5 throughout the first run and 0.25 throughout the
  second, and the two published sequences differ.
\<close>

theorem analyze_twice_counterexample:
  "acquisitionState (session (Inr failing_classifier)) = Ready failing_classifier
   \<and> failing_classifier ''blob:soil'' 0 = failing_classifier ''blob:soil'' 1
   \<and> predictions (analyzeImage 0 half (session (Inr failing_classifier)))
       = [\<lparr>className = ''Clay'', probability = 2 / 15\<rparr>,
          \<lparr>className = ''Sand'', probability = 11 / 15\<rparr>,
          \<lparr>className = ''Loam'', probability = 2 / 15\<rparr>]
   \<and> predictions (analyzeImage 1 quarter (analyzeImage 0 half (session (Inr failing_classifier))))
       = [\<lparr>className = ''Clay'', probability = 19 / 23\<rparr>,
          \<lparr>className = ''Sand'', probability = 2 / 23\<rparr>,
          \<lparr>className = ''Loam'', probability = 2 / 23\<rparr>]
   \<and> predictions (analyzeImage 1 quarter (analyzeImage 0 half (session (Inr failing_classifier))))
       \<noteq> predictions (analyzeImage 0 half (session (Inr failing_classifier)))"
proof -
  let ?s = "session (Inr failing_classifier)"
  let ?s' = "analyzeImage 0 half ?s"
  have a: "acquisitionState ?s = Ready failing_classifier"
    by (simp add: session_loaded acquisitionState_Ready_iff truthy_def)
  have b: "truthy (image_url ?s)" by (simp add: session_loaded truthy_def)
  have c: "imageRef ?s = Some ''blob:soil''" by (simp add: session_loaded)
  have m: "model ?s = Some failing_classifier" and ok: "\<not> truthy (modelLoadError ?s)"
    by (simp_all add: session_loaded truthy_def)
  have md: "metadata ?s = Some soil_metadata" by (simp add: session_loaded)
  have f: "failing_classifier ''blob:soil'' w = Inl (Error ''malformed image'')" for w
    by (simp add: failing_classifier_def)
  have g1: "generateMockPredictions half (Some soil_metadata)
       = [\<lparr>className = ''Clay'', probability = 2 / 15\<rparr>,
          \<lparr>className = ''Sand'', probability = 11 / 15\<rparr>,
          \<lparr>className = ''Loam'', probability = 2 / 15\<rparr>]"
    by (simp add: generateMockPredictions_def soil_metadata_def mockPredictions_def
          totalProb_def dominantIndex_def half_def)
  have g2: "generateMockPredictions quarter (Some soil_metadata)
       = [\<lparr>className = ''Clay'', probability = 19 / 23\<rparr>,
          \<lparr>className = ''Sand'', probability = 2 / 23\<rparr>,
          \<lparr>className = ''Loam'', probability = 2 / 23\<rparr>]"
    by (simp add: generateMockPredictions_def soil_metadata_def mockPredictions_def
          totalProb_def dominantIndex_def quarter_def)
  have first: "predictions ?s' = generateMockPredictions half (Some soil_metadata)"
    using analyzeImage_predict_failed
        [of ?s "''blob:soil''" failing_classifier 0 "Error ''malformed image''" half,
         OF b c m ok f [of 0]] md by simp
  note kept = analyzeImage_keeps_cells [of 0 half ?s]
  have b': "truthy (image_url ?s')" and c': "imageRef ?s' = Some ''blob:soil''"
    and m': "model ?s' = Some failing_classifier" and ok': "\<not> truthy (modelLoadError ?s')"
    and md': "metadata ?s' = Some soil_metadata"
    using kept b c m ok md by simp_all
  have second: "predictions (analyzeImage 1 quarter ?s')
       = generateMockPredictions quarter (Some soil_metadata)"
    using analyzeImage_predict_failed
        [of ?s' "''blob:soil''" failing_classifier 1 "Error ''malformed image''" quarter,
         OF b' c' m' ok' f [of 1]] md' by simp
  show ?thesis
    unfolding first second g1 g2 using a by (simp add: failing_classifier_def)
qed

text \<open>
  Claim C7 at a failing input. The metadata request resolves with a non-success
  status (\<^verbatim>\<open>response.ok\<close> is false) and a body that parses as JSON, and the classifier
  loads. \<^verbatim>\<open>loadModel\<close> of \<^verbatim>\<open>Dashboard.tsx\<close> never reads the status, so the run ends
  in the Ready state. (When the request rejects or the body does not parse, the run
  ends Degraded: lemma \<open>loadModel_request_failed\<close>.)
\<close>

theorem loadModel_failed_status_reaches_Ready:
  "acquisitionState
     (loadModel \<lparr>fetch_first = Response False (Json (Some soil_metadata)),
                 window_tmImage = None,
                 tmImage_load = Inr soil_classifier,
                 fetch_retry = Response False (Json (Some soil_metadata))\<rparr>
        initialState)
     = Ready soil_classifier"
  by (simp add: loadModel_def loadModel_try_def loadModel_loaded_def initialState_def toast_def
        acquisitionState_Ready_iff truthy_def Let_def)

end
